theory Spec2Isabelle
  imports Complex_Main
begin

section \<open>Python strings\<close>

text \<open>
  A Python \<open>str\<close> is modelled as a \<open>string\<close> whose characters are the code points
  0 to 255. The functions below are \<open>str.isspace\<close>, \<open>str.lower\<close>, \<open>str.upper\<close>,
  \<open>str.strip\<close>, \<open>str.startswith\<close> and the substring test \<open>in\<close> on that range.
\<close>

definition is_space :: "char \<Rightarrow> bool" where
  "is_space c =
     (let n = (of_char c :: nat)
      in (9 \<le> n \<and> n \<le> 13) \<or> (28 \<le> n \<and> n \<le> 32) \<or> n = 133 \<or> n = 160)"

definition lower_char :: "char \<Rightarrow> char" where
  "lower_char c =
     (let n = (of_char c :: nat)
      in if (65 \<le> n \<and> n \<le> 90) \<or> (192 \<le> n \<and> n \<le> 222 \<and> n \<noteq> 215)
         then char_of (n + 32) else c)"

text \<open>
  The upper-case forms of the code points 181, 223 and 255 lie outside the range; they
  are left as they are, and none of them is an ASCII letter in Python either.
\<close>

definition upper_char :: "char \<Rightarrow> char" where
  "upper_char c =
     (let n = (of_char c :: nat)
      in if (97 \<le> n \<and> n \<le> 122) \<or> (224 \<le> n \<and> n \<le> 254 \<and> n \<noteq> 247)
         then char_of (n - 32) else c)"

definition py_lower :: "string \<Rightarrow> string" where
  "py_lower s = map lower_char s"

definition py_upper :: "string \<Rightarrow> string" where
  "py_upper s = map upper_char s"

definition py_strip :: "string \<Rightarrow> string" where
  "py_strip s = rev (dropWhile is_space (rev (dropWhile is_space s)))"

fun startswith :: "string \<Rightarrow> string \<Rightarrow> bool" where
  "startswith s [] = True"
| "startswith [] (p # ps) = False"
| "startswith (c # cs) (p # ps) = (c = p \<and> startswith cs ps)"

text \<open>\<open>py_in p s\<close> is Python's \<open>p in s\<close>.\<close>

fun py_in :: "string \<Rightarrow> string \<Rightarrow> bool" where
  "py_in p [] = (p = [])"
| "py_in p (c # cs) = (startswith (c # cs) p \<or> py_in p cs)"

section \<open>Values and errors\<close>

text \<open>
  A table cell, and more generally a Python value that the program handles: \<open>None\<close>,
  the float NaN, an integer, a finite float (its value as a real number: rounding
  errors of the binary representation are not modelled), the floats plus and minus
  infinity, a string, a
  \<open>datetime.date\<close> (its proleptic Gregorian ordinal, \<open>date.toordinal()\<close>), a
  \<open>datetime.time\<close> (the microsecond of the day) and a timestamp of a datetime column
  (in microseconds, counted from midnight of ordinal 0). The missing timestamp NaT of
  a datetime column is written \<open>NaN\<close>.
\<close>

datatype cell =
    PyNone
  | NaN
  | IntV int
  | Num real
  | PosInf
  | NegInf
  | Str string
  | DateV int
  | TimeV int
  | DateTimeV int

datatype error =
    KeyError string
  | TypeError
  | AttributeError
  | ValueError
  | OverflowError

text \<open>\<open>pd.isna\<close> on a scalar.\<close>

definition isna :: "cell \<Rightarrow> bool" where
  "isna c = (c = PyNone \<or> c = NaN)"

text \<open>
  A parsed date and time: a \<open>datetime.datetime\<close> (returned by \<open>strptime\<close>) or a
  pandas \<open>Timestamp\<close> (returned by \<open>pd.to_datetime\<close>), as the ordinal of its day
  and the microsecond of that day.
\<close>

datatype stamp = Stamp (is_timestamp: bool) (day_of: int) (usec_of: int)

text \<open>A Python float on its own, and the cell that holds it.\<close>

datatype pyfloat = FNum real | FPosInf | FNegInf | FNaN

fun cell_of_float :: "pyfloat \<Rightarrow> cell" where
  "cell_of_float (FNum x) = Num x"
| "cell_of_float FPosInf = PosInf"
| "cell_of_float FNegInf = NegInf"
| "cell_of_float FNaN = NaN"

text \<open>
  The library functions whose results the program only passes on are parameters of the
  model:
  \<^item> \<open>str_of\<close>: Python's \<open>str\<close> on a number, a date, a time or a timestamp;
  \<^item> \<open>strptime text format\<close>: \<open>datetime.datetime.strptime\<close>, \<open>None\<close> for its
    \<open>ValueError\<close>;
  \<^item> \<open>to_datetime dayfirst value\<close>: \<open>pd.to_datetime(value, errors='coerce')\<close> on a
    scalar, \<open>Inr None\<close> for NaT;
  \<^item> \<open>float_of_str\<close>: the float that a string denotes, \<open>None\<close> when it denotes none;
  \<^item> \<open>ts_min\<close>, \<open>ts_max\<close>: the bounds of a pandas \<open>Timestamp\<close>, in microseconds
    counted from midnight of ordinal 0.
\<close>

record pylib =
  str_of :: "cell \<Rightarrow> string"
  strptime :: "string \<Rightarrow> string \<Rightarrow> stamp option"
  to_datetime :: "bool \<Rightarrow> cell \<Rightarrow> error + stamp option"
  float_of_str :: "string \<Rightarrow> pyfloat option"
  ts_min :: int
  ts_max :: int

text \<open>Python's \<open>str(value)\<close>.\<close>

definition py_str :: "pylib \<Rightarrow> cell \<Rightarrow> string" where
  "py_str lib c =
     (case c of Str s \<Rightarrow> s | PyNone \<Rightarrow> ''None'' | NaN \<Rightarrow> ''nan'' | _ \<Rightarrow> str_of lib c)"

section \<open>Coordinate converter\<close>

text \<open>\<open>int(x)\<close> on a float truncates towards zero.\<close>

definition py_int :: "real \<Rightarrow> int" where
  "py_int x = (if 0 \<le> x then \<lfloor>x\<rfloor> else \<lceil>x\<rceil>)"

text \<open>\<open>round(x, 1)\<close>: one decimal place, a tie going to the even neighbour.\<close>

definition py_round1 :: "real \<Rightarrow> real" where
  "py_round1 x =
     (let y = x * 10; f = \<lfloor>y\<rfloor>; r = y - of_int f
      in of_int (if r < 1 / 2 then f
                 else if 1 / 2 < r then f + 1
                 else if even f then f else f + 1) / 10)"

text \<open>
  The conditional expression of the source,
  \<^verbatim>\<open>'N' if decimal >= 0 and is_latitude else 'S' if is_latitude else 'E' if decimal >= 0 else 'W'\<close>,
  with \<open>nonneg\<close> standing for \<open>decimal >= 0\<close>.
\<close>

definition direction_of :: "bool \<Rightarrow> bool \<Rightarrow> string" where
  "direction_of nonneg is_latitude =
     (if nonneg \<and> is_latitude then ''N''
      else if is_latitude then ''S''
      else if nonneg then ''E'' else ''W'')"

text \<open>
  \<open>convert_decimal_to_dms\<close>. The comparison \<open>decimal >= 0\<close> raises \<open>TypeError\<close> on a
  string, a date or a time. An infinite float passes \<open>pd.isna\<close> and the comparison, and
  \<open>int(decimal)\<close> raises \<open>OverflowError\<close> on it. On an integer, \<open>round\<close> of the integer
  \<open>(decimal - degrees) * 60\<close> is that integer.
\<close>

fun convert_decimal_to_dms :: "cell \<Rightarrow> bool \<Rightarrow> error + (cell \<times> cell \<times> cell)" where
  "convert_decimal_to_dms PyNone is_latitude = Inr (PyNone, PyNone, PyNone)"
| "convert_decimal_to_dms NaN is_latitude = Inr (PyNone, PyNone, PyNone)"
| "convert_decimal_to_dms (IntV i) is_latitude =
     (let direction = direction_of (0 \<le> i) is_latitude;
          decimal = \<bar>i\<bar>;
          degrees = decimal;
          minutes = (decimal - degrees) * 60
      in Inr (IntV degrees, IntV minutes, Str direction))"
| "convert_decimal_to_dms (Num d) is_latitude =
     (let direction = direction_of (0 \<le> d) is_latitude;
          decimal = \<bar>d\<bar>;
          degrees = py_int decimal;
          minutes = py_round1 ((decimal - of_int degrees) * 60)
      in Inr (IntV degrees, Num minutes, Str direction))"
| "convert_decimal_to_dms PosInf is_latitude = Inl OverflowError"
| "convert_decimal_to_dms NegInf is_latitude = Inl OverflowError"
| "convert_decimal_to_dms (Str s) is_latitude = Inl TypeError"
| "convert_decimal_to_dms (DateV d) is_latitude = Inl TypeError"
| "convert_decimal_to_dms (TimeV t) is_latitude = Inl TypeError"
| "convert_decimal_to_dms (DateTimeV k) is_latitude = Inl TypeError"

section \<open>Timezone normalizer\<close>

definition usec_per_hour :: int where
  "usec_per_hour = 3600000000"

definition usec_per_day :: int where
  "usec_per_day = 86400000000"

definition is_digit :: "char \<Rightarrow> bool" where
  "is_digit c = (let n = (of_char c :: nat) in 48 \<le> n \<and> n \<le> 57)"

text \<open>
  \<open>re.search(r'TVA/GMT([+-]\d+)', timezone)\<close>: \<open>match_at s\<close> is the match that starts
  at the beginning of \<open>s\<close>, and \<open>re_search\<close> tries every start from left to right. The
  result is group 1, the sign and the longest run of digits after it.
\<close>

definition match_at :: "string \<Rightarrow> string option" where
  "match_at s =
     (if startswith s ''TVA/GMT'' then
        (case drop 7 s of
           [] \<Rightarrow> None
         | sg # rest \<Rightarrow>
             if (sg = CHR ''+'' \<or> sg = CHR ''-'') \<and> takeWhile is_digit rest \<noteq> []
             then Some (sg # takeWhile is_digit rest) else None)
      else None)"

fun re_search :: "string \<Rightarrow> string option" where
  "re_search [] = match_at []"
| "re_search (c # cs) =
     (case match_at (c # cs) of Some g \<Rightarrow> Some g | None \<Rightarrow> re_search cs)"

text \<open>
  \<open>int(text)\<close> on a sign followed by decimal digits. Python 3.11 raises \<open>ValueError\<close>
  on more than 4300 digits.
\<close>

definition digit_val :: "char \<Rightarrow> int" where
  "digit_val c = int (of_char c) - 48"

definition int_of_digits :: "string \<Rightarrow> int" where
  "int_of_digits ds = foldl (\<lambda>a c. a * 10 + digit_val c) 0 ds"

definition py_int_of_str :: "string \<Rightarrow> error + int" where
  "py_int_of_str g =
     (case g of
        [] \<Rightarrow> Inl ValueError
      | sg # ds \<Rightarrow>
          if 4300 < length ds then Inl ValueError
          else Inr (if sg = CHR ''-'' then - int_of_digits ds else int_of_digits ds))"

text \<open>
  \<open>pd.to_timedelta(offset, unit='h')\<close>: a \<open>Timedelta\<close> counts nanoseconds in 64 bits and
  the conversion raises when the hours do not fit.
\<close>

definition to_timedelta_hours :: "int \<Rightarrow> error + int" where
  "to_timedelta_hours offset =
     (if \<bar>offset\<bar> * 3600000000000 \<le> 9223372036854775807 then Inr offset
      else Inl OverflowError)"

text \<open>
  \<open>report_to_dt - delta\<close>. A \<open>datetime.datetime\<close> lies between the years 1 and 9999
  (the ordinals 1 and 3652059), a \<open>Timestamp\<close> between its own bounds; a result outside
  raises.
\<close>

definition representable :: "pylib \<Rightarrow> bool \<Rightarrow> int \<Rightarrow> bool" where
  "representable lib is_ts instant =
     (if is_ts then ts_min lib \<le> instant \<and> instant \<le> ts_max lib
      else 1 \<le> instant div usec_per_day \<and> instant div usec_per_day \<le> 3652059)"

definition sub_hours :: "pylib \<Rightarrow> stamp \<Rightarrow> int \<Rightarrow> error + stamp" where
  "sub_hours lib dt hours =
     (let instant = day_of dt * usec_per_day + usec_of dt - hours * usec_per_hour
      in if representable lib (is_timestamp dt) instant
         then Inr (Stamp (is_timestamp dt) (instant div usec_per_day) (instant mod usec_per_day))
         else Inl OverflowError)"

text \<open>The loop over \<open>formats\<close>: the first layout that parses wins.\<close>

definition formats :: "string list" where
  "formats = [''%d/%m/%Y %H:%M'', ''%m/%d/%Y %H:%M'', ''%Y-%m-%d %H:%M'']"

fun try_formats :: "pylib \<Rightarrow> string \<Rightarrow> string list \<Rightarrow> stamp option" where
  "try_formats lib text [] = None"
| "try_formats lib text (fmt # fmts) =
     (case strptime lib text fmt of
        Some dt \<Rightarrow> Some dt
      | None \<Rightarrow> try_formats lib text fmts)"

definition parse_report_to :: "pylib \<Rightarrow> cell \<Rightarrow> error + stamp option" where
  "parse_report_to lib report_to =
     (case try_formats lib (py_str lib report_to) formats of
        Some dt \<Rightarrow> Inr (Some dt)
      | None \<Rightarrow> to_datetime lib True report_to)"

text \<open>Python's \<open>not value\<close>.\<close>

fun py_not :: "cell \<Rightarrow> bool" where
  "py_not PyNone = True"
| "py_not NaN = False"
| "py_not (IntV i) = (i = 0)"
| "py_not (Num x) = (x = 0)"
| "py_not PosInf = False"
| "py_not NegInf = False"
| "py_not (Str s) = (s = [])"
| "py_not (DateV d) = False"
| "py_not (TimeV t) = False"
| "py_not (DateTimeV k) = False"

text \<open>
  The body of the \<open>try\<close> block of \<open>adjust_to_utc\<close>: \<open>Inl\<close> is an exception that leaves
  the block. \<open>timezone.strip()\<close> raises \<open>AttributeError\<close> on a value that is not a string.
  The result is the pair (time, date).
\<close>

definition adjust_to_utc_body :: "pylib \<Rightarrow> cell \<Rightarrow> cell \<Rightarrow> error + (cell \<times> cell)" where
  "adjust_to_utc_body lib report_to timezone =
     (case parse_report_to lib report_to of
        Inl e \<Rightarrow> Inl e
      | Inr None \<Rightarrow> Inr (PyNone, PyNone)
      | Inr (Some report_to_dt) \<Rightarrow>
          if py_not timezone then Inr (PyNone, PyNone)
          else
            (case timezone of
               Str tz \<Rightarrow>
                 if py_upper (py_strip tz) = ''UTC''
                 then Inr (TimeV (usec_of report_to_dt), DateV (day_of report_to_dt))
                 else
                   (case re_search tz of
                      Some g \<Rightarrow>
                        (case py_int_of_str g of
                           Inl e \<Rightarrow> Inl e
                         | Inr offset \<Rightarrow>
                             (case to_timedelta_hours offset of
                                Inl e \<Rightarrow> Inl e
                              | Inr hours \<Rightarrow>
                                  (case sub_hours lib report_to_dt hours of
                                     Inl e \<Rightarrow> Inl e
                                   | Inr adjusted_time \<Rightarrow>
                                       Inr (TimeV (usec_of adjusted_time),
                                            DateV (day_of adjusted_time)))))
                    | None \<Rightarrow> Inr (PyNone, PyNone))
             | _ \<Rightarrow> Inl AttributeError))"

text \<open>\<open>adjust_to_utc\<close>: the \<open>except Exception\<close> clause returns \<open>(None, None)\<close>.\<close>

definition adjust_to_utc :: "pylib \<Rightarrow> cell \<Rightarrow> cell \<Rightarrow> cell \<times> cell" where
  "adjust_to_utc lib report_to timezone =
     (case adjust_to_utc_body lib report_to timezone of
        Inl e \<Rightarrow> (PyNone, PyNone)
      | Inr r \<Rightarrow> r)"

section \<open>Event normalizer\<close>

text \<open>\<open>process_event\<close>, the local function of \<open>transform_navfleet_data\<close>.\<close>

definition process_event :: "pylib \<Rightarrow> cell \<Rightarrow> cell" where
  "process_event lib event_text =
     (if isna event_text then event_text
      else let text = py_strip (py_str lib event_text)
           in if py_in ''Sea'' text then Str ''Noon (Position) - Sea passage''
              else if py_in ''Port'' text then Str ''Noon (Position) Port''
              else if py_in ''Arrival'' text then Str ''Arrival''
              else if py_in ''Departure'' text then Str ''Departure''
              else Str text)"

section \<open>Tables\<close>

text \<open>
  A pandas \<open>DataFrame\<close> with the default index: the number of its rows and its columns
  in order, each with its name and one cell for every row.
\<close>

datatype dataframe = DataFrame (nrows: nat) (cols: "(string \<times> cell list) list")


definition ebind :: "error + 'a \<Rightarrow> ('a \<Rightarrow> error + 'b) \<Rightarrow> error + 'b" where
  "ebind m f = (case m of Inl e \<Rightarrow> Inl e | Inr x \<Rightarrow> f x)"

text \<open>Applying a function that may raise to every element, in order.\<close>

fun map_err :: "('a \<Rightarrow> error + 'b) \<Rightarrow> 'a list \<Rightarrow> error + 'b list" where
  "map_err f [] = Inr []"
| "map_err f (x # xs) = ebind (f x) (\<lambda>y. ebind (map_err f xs) (\<lambda>ys. Inr (y # ys)))"

text \<open>\<open>col in df\<close>, \<open>df[col]\<close> and \<open>df[col] = values\<close>.\<close>

definition has_col :: "dataframe \<Rightarrow> string \<Rightarrow> bool" where
  "has_col df c = (c \<in> set (map fst (cols df)))"

definition get_col :: "dataframe \<Rightarrow> string \<Rightarrow> error + cell list" where
  "get_col df c = (case map_of (cols df) c of None \<Rightarrow> Inl (KeyError c) | Some v \<Rightarrow> Inr v)"

definition set_col :: "dataframe \<Rightarrow> string \<Rightarrow> cell list \<Rightarrow> dataframe" where
  "set_col df c v =
     DataFrame (nrows df)
       (if has_col df c then map (\<lambda>(k, x). if k = c then (k, v) else (k, x)) (cols df)
        else cols df @ [(c, v)])"

text \<open>\<open>Series.fillna(value)\<close> on one cell.\<close>

definition fillna :: "cell \<Rightarrow> cell \<Rightarrow> cell" where
  "fillna v c = (if isna c then v else c)"

text \<open>The methods \<open>.str.strip()\<close>, \<open>.str.lower()\<close> and \<open>.str[:5]\<close> on one cell of a column
  of Python objects: a cell that is not a string gives NaN.\<close>

definition str_strip :: "cell \<Rightarrow> cell" where
  "str_strip c = (case c of Str s \<Rightarrow> Str (py_strip s) | _ \<Rightarrow> NaN)"

definition str_lower :: "cell \<Rightarrow> cell" where
  "str_lower c = (case c of Str s \<Rightarrow> Str (py_lower s) | _ \<Rightarrow> NaN)"

definition str_slice5 :: "cell \<Rightarrow> cell" where
  "str_slice5 c = (case c of Str s \<Rightarrow> Str (take 5 s) | _ \<Rightarrow> NaN)"

section \<open>Fuel consumption aggregator\<close>

definition fuel_type_to_ME_column :: "(string \<times> string) list" where
  "fuel_type_to_ME_column =
     [(''hfo'', ''ME_Consumption_HFO''),
      (''vlsfo2020'', ''ME_Consumption_HFO''),
      (''lfo'', ''ME_Consumption_LFO''),
      (''mgo'', ''ME_Consumption_MGO''),
      (''ulsmgo2020'', ''ME_Consumption_MGO''),
      (''mdo'', ''ME_Consumption_MDO''),
      (''lng'', ''ME_Consumption_LNG''),
      (''lpgp'', ''ME_Consumption_LPGP''),
      (''lpgb'', ''ME_Consumption_LPGB''),
      (''m'', ''ME_Consumption_M''),
      (''e'', ''ME_Consumption_E'')]"

definition fuel_type_to_AE_column :: "(string \<times> string) list" where
  "fuel_type_to_AE_column =
     [(''hfo'', ''AE_Consumption_HFO''),
      (''vlsfo2020'', ''AE_Consumption_HFO''),
      (''lfo'', ''AE_Consumption_LFO''),
      (''mgo'', ''AE_Consumption_MGO''),
      (''ulsmgo2020'', ''ME_Consumption_MGO''),
      (''mdo'', ''AE_Consumption_MDO''),
      (''lng'', ''AE_Consumption_LNG''),
      (''lpgp'', ''AE_Consumption_LPGP''),
      (''lpgb'', ''AE_Consumption_LPGB''),
      (''m'', ''AE_Consumption_M''),
      (''e'', ''AE_Consumption_E'')]"

definition fuel_type_to_Boiler_column :: "(string \<times> string) list" where
  "fuel_type_to_Boiler_column =
     [(''hfo'', ''Boiler_Consumption_HFO''),
      (''vlsfo2020'', ''Boiler_Consumption_HFO''),
      (''lfo'', ''Boiler_Consumption_LFO''),
      (''mgo'', ''Boiler_Consumption_MGO''),
      (''ulsmgo2020'', ''ME_Consumption_MGOO''),
      (''mdo'', ''Boiler_Consumption_MDO''),
      (''lng'', ''Boiler_Consumption_LNG''),
      (''lpgp'', ''Boiler_Consumption_LPGP''),
      (''lpgb'', ''Boiler_Consumption_LPGB''),
      (''m'', ''Boiler_Consumption_M''),
      (''e'', ''Boiler_Consumption_E'')]"

text \<open>
  \<open>Series.astype(float)\<close> on one cell: a string is read as a number or raises
  \<open>ValueError\<close>, \<open>None\<close> becomes NaN.
\<close>

fun astype_float :: "pylib \<Rightarrow> cell \<Rightarrow> error + cell" where
  "astype_float lib PyNone = Inr NaN"
| "astype_float lib NaN = Inr NaN"
| "astype_float lib (IntV i) = Inr (Num (of_int i))"
| "astype_float lib (Num x) = Inr (Num x)"
| "astype_float lib PosInf = Inr PosInf"
| "astype_float lib NegInf = Inr NegInf"
| "astype_float lib (Str s) =
     (case float_of_str lib s of
        Some x \<Rightarrow> Inr (cell_of_float x)
      | None \<Rightarrow> Inl ValueError)"
| "astype_float lib (DateV d) = Inl TypeError"
| "astype_float lib (TimeV t) = Inl TypeError"
| "astype_float lib (DateTimeV k) = Inl TypeError"

text \<open>\<open>Series.astype(str)\<close> on one cell.\<close>

definition astype_str :: "pylib \<Rightarrow> cell \<Rightarrow> cell" where
  "astype_str lib c = Str (py_str lib c)"

text \<open>
  The three loops that make every target column exist as a float column: a column that
  is missing is created with 0.0 in every row, a column that is there is converted.
\<close>

fun init_columns :: "pylib \<Rightarrow> dataframe \<Rightarrow> string list \<Rightarrow> error + dataframe" where
  "init_columns lib df [] = Inr df"
| "init_columns lib df (col # rest) =
     (if \<not> has_col df col
      then init_columns lib (set_col df col (replicate (nrows df) (Num 0))) rest
      else ebind (get_col df col) (\<lambda>v.
           ebind (map_err (astype_float lib) v) (\<lambda>v'.
           init_columns lib (set_col df col v') rest)))"

text \<open>
  The sum of a cell of a float column and a quantity: NaN if either is missing,
  \<open>TypeError\<close> if the quantity is not a number. \<open>fadd\<close> is the sum of two floats:
  infinity plus minus infinity is NaN.
\<close>

definition as_float :: "cell \<Rightarrow> pyfloat option" where
  "as_float c =
     (case c of
        IntV i \<Rightarrow> Some (FNum (of_int i))
      | Num x \<Rightarrow> Some (FNum x)
      | PosInf \<Rightarrow> Some FPosInf
      | NegInf \<Rightarrow> Some FNegInf
      | _ \<Rightarrow> None)"

fun fadd :: "pyfloat \<Rightarrow> pyfloat \<Rightarrow> pyfloat" where
  "fadd (FNum a) (FNum b) = FNum (a + b)"
| "fadd FNaN y = FNaN"
| "fadd x FNaN = FNaN"
| "fadd FPosInf FNegInf = FNaN"
| "fadd FNegInf FPosInf = FNaN"
| "fadd FPosInf y = FPosInf"
| "fadd x FPosInf = FPosInf"
| "fadd FNegInf y = FNegInf"
| "fadd x FNegInf = FNegInf"

definition float_add :: "cell \<Rightarrow> cell \<Rightarrow> error + cell" where
  "float_add t q =
     (if isna t \<or> isna q then Inr NaN
      else case (as_float t, as_float q) of
             (Some a, Some b) \<Rightarrow> Inr (cell_of_float (fadd a b))
           | _ \<Rightarrow> Inl TypeError)"

text \<open>
  \<open>df.loc[mask, target_col] += values\<close>: in the rows selected by the mask (\<open>row_mask\<close>), the cell of
  the target column becomes its sum with the value of that row; the other rows are
  left as they are.
\<close>

definition loc_iadd :: "dataframe \<Rightarrow> bool list \<Rightarrow> string \<Rightarrow> cell list \<Rightarrow> error + dataframe" where
  "loc_iadd df row_mask target_col values =
     ebind (get_col df target_col) (\<lambda>t.
     ebind (map_err (\<lambda>(m, t, q). if m then float_add t q else Inr t) (zip row_mask (zip t values)))
       (\<lambda>v. Inr (set_col df target_col v)))"

text \<open>
  The loop \<open>for fuel_type, target_col in table.items()\<close> of one block, and the block
  with its guard: \<open>fuel_col\<close> is the column of fuel types, \<open>qty_col\<close> the column of
  quantities.
\<close>

fun fuel_loop :: "dataframe \<Rightarrow> string \<Rightarrow> string \<Rightarrow> (string \<times> string) list \<Rightarrow> error + dataframe" where
  "fuel_loop df fuel_col qty_col [] = Inr df"
| "fuel_loop df fuel_col qty_col ((fuel_type, target_col) # rest) =
     ebind (get_col df fuel_col) (\<lambda>f.
     ebind (get_col df qty_col) (\<lambda>q.
     ebind (loc_iadd df (map (\<lambda>c. str_lower (str_strip c) = Str fuel_type) f) target_col
              (map (fillna (IntV 0)) q)) (\<lambda>df'.
     fuel_loop df' fuel_col qty_col rest)))"

definition add_fuel ::
  "pylib \<Rightarrow> string \<Rightarrow> string \<Rightarrow> (string \<times> string) list \<Rightarrow> dataframe \<Rightarrow> error + dataframe" where
  "add_fuel lib fuel_col qty_col table df =
     (if has_col df fuel_col \<and> has_col df qty_col then
        ebind (get_col df fuel_col) (\<lambda>f.
        fuel_loop (set_col df fuel_col (map (\<lambda>c. fillna (Str []) (astype_str lib c)) f))
          fuel_col qty_col table)
      else Inr df)"

text \<open>
  \<open>map_fuel_type_consumption\<close>. The three blocks for fuel slot 1 all loop over
  \<open>fuel_type_to_ME_column\<close>, as the source does.
\<close>

definition map_fuel_type_consumption :: "pylib \<Rightarrow> dataframe \<Rightarrow> error + dataframe" where
  "map_fuel_type_consumption lib navfleet_data =
     ebind (init_columns lib navfleet_data (map snd fuel_type_to_ME_column)) (\<lambda>df1.
     ebind (init_columns lib df1 (map snd fuel_type_to_AE_column)) (\<lambda>df2.
     ebind (init_columns lib df2 (map snd fuel_type_to_Boiler_column)) (\<lambda>df3.
     ebind (add_fuel lib ''Fuel Type 1'' ''Fuel Type 1 ME (MT)'' fuel_type_to_ME_column df3) (\<lambda>df4.
     ebind (add_fuel lib ''Fuel Type 1'' ''Fuel Type 1 AE (MT)'' fuel_type_to_ME_column df4) (\<lambda>df5.
     ebind (add_fuel lib ''Fuel Type 1'' ''Fuel Type 1 Aux. Boiler (MT)'' fuel_type_to_ME_column df5) (\<lambda>df6.
     ebind (add_fuel lib ''Fuel Type 2'' ''Fuel Type 2 Total (MT)'' fuel_type_to_AE_column df6) (\<lambda>df7.
     add_fuel lib ''Fuel Type 3'' ''Fuel Type 3 Total (MT)'' fuel_type_to_Boiler_column df7)))))))"


fun is_float :: "cell \<Rightarrow> bool" where
  "is_float NaN = True"
| "is_float (Num x) = True"
| "is_float PosInf = True"
| "is_float NegInf = True"
| "is_float PyNone = False"
| "is_float (IntV i) = False"
| "is_float (Str s) = False"
| "is_float (DateV d) = False"
| "is_float (TimeV t) = False"
| "is_float (DateTimeV k) = False"




section \<open>Record transformer\<close>









text \<open>
  One of the three loops \<open>for col in navfleet_data.columns: if col.startswith(prefix):
  transformed[col] = navfleet_data[col]\<close>.
\<close>

definition copy_prefixed :: "string \<Rightarrow> dataframe \<Rightarrow> dataframe \<Rightarrow> dataframe" where
  "copy_prefixed prefix navfleet_data transformed =
     fold (\<lambda>(col, v) t. if startswith col prefix then set_col t col v else t)
       (cols navfleet_data) transformed"




definition take_rows :: "nat list \<Rightarrow> dataframe \<Rightarrow> dataframe" where
  "take_rows idx df =
     DataFrame (length idx) (map (\<lambda>(c, v). (c, map (\<lambda>i. v ! i) idx)) (cols df))"





section \<open>Port code resolver\<close>

text \<open>
  \<open>reference_data['Country'] + reference_data['Location']\<close> on one row: two strings
  are concatenated, a missing operand gives NaN, and a string and a number raise.
\<close>

definition concat_cells :: "cell \<Rightarrow> cell \<Rightarrow> error + cell" where
  "concat_cells a b =
     (if isna a \<or> isna b then Inr NaN
      else case (a, b) of
             (Str x, Str y) \<Rightarrow> Inr (Str (x @ y))
           | _ \<Rightarrow> Inl TypeError)"

text \<open>
  \<open>map_values\<close>: \<open>dict(zip(keys, values))\<close> keeps the last value of a key that occurs
  twice; \<open>column.map(reference_map)\<close> gives NaN where the dictionary has no entry, and
  \<open>fillna(column)\<close> puts the cell of \<open>column\<close> there.
\<close>

definition reference_map :: "cell list \<Rightarrow> cell list \<Rightarrow> cell \<Rightarrow> cell option" where
  "reference_map keys values = map_of (rev (zip keys values))"

definition map_values :: "cell list \<Rightarrow> dataframe \<Rightarrow> string \<Rightarrow> string \<Rightarrow> error + cell list" where
  "map_values column reference_df reference_key target_key =
     ebind (get_col reference_df reference_key) (\<lambda>keys.
     ebind (get_col reference_df target_key) (\<lambda>values.
     Inr (map (\<lambda>c. let mapped = (case reference_map keys values c of
                                      Some v \<Rightarrow> v | None \<Rightarrow> NaN)
                      in if isna mapped then c else mapped) column)))"

text \<open>
  The loop over \<open>['Voyage_From', 'Voyage_To']\<close>: a column that the table lacks is
  skipped (the source prints a message).
\<close>

fun update_columns :: "dataframe \<Rightarrow> dataframe \<Rightarrow> string list \<Rightarrow> error + dataframe" where
  "update_columns output_data reference_data [] = Inr output_data"
| "update_columns output_data reference_data (column # rest) =
     (if has_col output_data column then
        ebind (get_col output_data column) (\<lambda>v.
        ebind (map_values (map (\<lambda>c. str_strip (str_lower c)) v) reference_data
                 ''NameWoDiacritics'' ''PortCode'') (\<lambda>v'.
        update_columns (set_col output_data column v') reference_data rest))
      else update_columns output_data reference_data rest)"

text \<open>
  \<open>pd.to_datetime(column, errors='coerce').dt.date\<close> on one cell; NaT where the value
  is no date.
\<close>

definition to_date :: "pylib \<Rightarrow> cell \<Rightarrow> error + cell" where
  "to_date lib c =
     ebind (to_datetime lib False c) (\<lambda>r.
     Inr (case r of Some dt \<Rightarrow> DateV (day_of dt) | None \<Rightarrow> NaN))"

text \<open>
  \<open>update_voyage_columns\<close>. The \<open>.str\<close> methods are those of a column of Python objects;
  pandas refuses them with \<open>AttributeError\<close> on a column of numbers, which the model
  does not distinguish.
\<close>

definition update_voyage_columns :: "pylib \<Rightarrow> dataframe \<Rightarrow> dataframe \<Rightarrow> error + dataframe" where
  "update_voyage_columns lib output_data reference_data =
     ebind (get_col reference_data ''NameWoDiacritics'') (\<lambda>names.
     let reference_data =
           set_col reference_data ''NameWoDiacritics'' (map (\<lambda>c. str_strip (str_lower c)) names)
     in ebind (get_col reference_data ''Country'') (\<lambda>country.
        ebind (get_col reference_data ''Location'') (\<lambda>location.
        ebind (map_err (\<lambda>(a, b). concat_cells a b) (zip country location)) (\<lambda>code.
        let reference_data = set_col reference_data ''PortCode'' (map str_slice5 code)
        in ebind (update_columns output_data reference_data [''Voyage_From'', ''Voyage_To''])
             (\<lambda>output_data.
             if has_col output_data ''Date_UTC'' then
               ebind (get_col output_data ''Date_UTC'') (\<lambda>d.
               ebind (map_err (to_date lib) d) (\<lambda>d'.
               Inr (set_col output_data ''Date_UTC'' d')))
             else Inr output_data)))))"

section \<open>Properties of columns\<close>







section \<open>Example inputs\<close>

text \<open>A library instance that parses nothing.\<close>

definition lib0 :: pylib where
  "lib0 = \<lparr> str_of = (\<lambda>_. []), strptime = (\<lambda>t f. None),
     to_datetime = (\<lambda>_ _. Inr None), float_of_str = (\<lambda>_. None), ts_min = 0, ts_max = 0 \<rparr>"

text \<open>
  A library instance whose \<open>strptime\<close> reads two texts in the day/month/year layout:
  1 March 2024, 02:00 (ordinal 738946) and 1 January of the year 1, 02:00 (ordinal 1).
\<close>

definition lib1 :: pylib where
  "lib1 = \<lparr> str_of = (\<lambda>_. []),
     strptime = (\<lambda>t f. if f = ''%d/%m/%Y %H:%M'' \<and> t = ''01/03/2024 02:00''
                         then Some (Stamp False 738946 7200000000)
                       else if f = ''%d/%m/%Y %H:%M'' \<and> t = ''01/01/0001 02:00''
                         then Some (Stamp False 1 7200000000)
                       else None),
     to_datetime = (\<lambda>_ _. Inr None), float_of_str = (\<lambda>_. None),
     ts_min = 0, ts_max = 0 \<rparr>"

text \<open>One row with fuel type "hfo" in slot 1 and the three quantities 10, 2 and 3.\<close>

definition fuel_example :: dataframe where
  "fuel_example =
     DataFrame 1
       [(''Fuel Type 1'', [Str ''hfo'']),
        (''Fuel Type 1 ME (MT)'', [Num 10]),
        (''Fuel Type 1 AE (MT)'', [Num 2]),
        (''Fuel Type 1 Aux. Boiler (MT)'', [Num 3])]"

text \<open>An output table with two voyages and a reference table with one port.\<close>

definition voyage_example :: dataframe where
  "voyage_example =
     DataFrame 2
       [(''Voyage_From'', [NaN, Str ''Hamburg '']),
        (''Voyage_To'', [Str ''Hamburg '', Str '' Rotterdam''])]"

definition reference_example :: dataframe where
  "reference_example =
     DataFrame 1
       [(''NameWoDiacritics'', [Str ''Rotterdam'']),
        (''Country'', [Str ''NL'']),
        (''Location'', [Str ''ROTT''])]"



section \<open>Strings and rounding\<close>

lemma py_round1_bound: "\<bar>py_round1 x - x\<bar> \<le> 1 / 20"
proof -
  define y where "y = x * 10"
  define f where "f = \<lfloor>y\<rfloor>"
  define k where "k = (if y - of_int f < 1 / 2 then f
                 else if 1 / 2 < y - of_int f then f + 1
                 else if even f then f else f + 1)"
  have fy: "of_int f \<le> y" "y < of_int f + 1" unfolding f_def by linarith+
  have "\<bar>of_int k - y\<bar> \<le> 1 / 2" unfolding k_def using fy by (auto split: if_splits)
  moreover have "py_round1 x = of_int k / 10"
    unfolding py_round1_def Let_def k_def f_def y_def by simp
  ultimately have "\<bar>py_round1 x * 10 - x * 10\<bar> \<le> 1 / 2" unfolding y_def by simp
  then show ?thesis by linarith
qed

lemma startswith_iff: "startswith s p \<longleftrightarrow> (\<exists>b. s = p @ b)"
  by (induction s p rule: startswith.induct) auto

lemma py_in_iff: "py_in p s \<longleftrightarrow> (\<exists>a b. s = a @ p @ b)"
proof (induction s)
  case Nil
  then show ?case by auto
next
  case (Cons c cs)
  show ?case
  proof
    assume "py_in p (c # cs)"
    then consider "startswith (c # cs) p" | "py_in p cs" by auto
    then show "\<exists>a b. c # cs = a @ p @ b"
    proof cases
      case 1
      then obtain b where "c # cs = p @ b" using startswith_iff by blast
      then have "c # cs = [] @ p @ b" by simp
      then show ?thesis by blast
    next
      case 2
      then obtain a b where "cs = a @ p @ b" using Cons.IH by blast
      then have "c # cs = (c # a) @ p @ b" by simp
      then show ?thesis by blast
    qed
  next
    assume "\<exists>a b. c # cs = a @ p @ b"
    then obtain a b where ab: "c # cs = a @ p @ b" by blast
    show "py_in p (c # cs)"
    proof (cases a)
      case Nil
      then have "startswith (c # cs) p" using ab startswith_iff by auto
      then show ?thesis by simp
    next
      case (Cons a0 as)
      then have "cs = as @ p @ b" using ab by simp
      then have "py_in p cs" using Cons.IH by blast
      then show ?thesis by simp
    qed
  qed
qed

section \<open>Event normalizer: the rules\<close>

text \<open>
  C9. For every event string, \<open>process_event\<close> applies its rules in order and the first
  match wins: if the trimmed text contains "Sea" the result is "Noon (Position) - Sea
  passage", else if it contains "Port" the result is "Noon (Position) Port", else if it
  contains "Arrival" the result is "Arrival", else if it contains "Departure" the result
  is "Departure", and otherwise the result is the trimmed text. An absent input (\<open>None\<close>
  or NaN) is returned as it is. Containment is stated as such: the text is some prefix,
  the keyword and some suffix.
\<close>

theorem process_event_rules:
  "process_event lib (Str s) =
     (if (\<exists>a b. py_strip s = a @ ''Sea'' @ b) then Str ''Noon (Position) - Sea passage''
      else if (\<exists>a b. py_strip s = a @ ''Port'' @ b) then Str ''Noon (Position) Port''
      else if (\<exists>a b. py_strip s = a @ ''Arrival'' @ b) then Str ''Arrival''
      else if (\<exists>a b. py_strip s = a @ ''Departure'' @ b) then Str ''Departure''
      else Str (py_strip s))
   \<and> process_event lib PyNone = PyNone \<and> process_event lib NaN = NaN"
  unfolding process_event_def py_in_iff [symmetric]
  by (simp add: isna_def py_str_def Let_def)

theorem process_event_rules_witness:
  "process_event lib0 (Str ''At Sea - noon report'') = Str ''Noon (Position) - Sea passage''
   \<and> process_event lib0 (Str ''Arrival Pilot Station'') = Str ''Arrival''
   \<and> process_event lib0 (Str '' Standby '') = Str ''Standby''"
proof -
  have sea: "\<exists>a b. py_strip ''At Sea - noon report'' = a @ ''Sea'' @ b"
    unfolding py_in_iff [symmetric] by (simp add: py_strip_def is_space_def)
  have arr: "\<not> (\<exists>a b. py_strip ''Arrival Pilot Station'' = a @ ''Sea'' @ b)"
    "\<not> (\<exists>a b. py_strip ''Arrival Pilot Station'' = a @ ''Port'' @ b)"
    "\<exists>a b. py_strip ''Arrival Pilot Station'' = a @ ''Arrival'' @ b"
    unfolding py_in_iff [symmetric] by (simp_all add: py_strip_def is_space_def)
  have sby: "\<not> (\<exists>a b. ''Standby'' = a @ ''Sea'' @ b)"
    "\<not> (\<exists>a b. ''Standby'' = a @ ''Port'' @ b)"
    "\<not> (\<exists>a b. ''Standby'' = a @ ''Arrival'' @ b)"
    "\<not> (\<exists>a b. ''Standby'' = a @ ''Departure'' @ b)"
    unfolding py_in_iff [symmetric] by simp_all
  have strip: "py_strip '' Standby '' = ''Standby''"
    by (simp add: py_strip_def is_space_def)
  have 1: "process_event lib0 (Str ''At Sea - noon report'') = Str ''Noon (Position) - Sea passage''"
    using process_event_rules [of lib0 "''At Sea - noon report''"] 
    by (simp only: sea if_True)
  have 2: "process_event lib0 (Str ''Arrival Pilot Station'') = Str ''Arrival''"
    using process_event_rules [of lib0 "''Arrival Pilot Station''"] 
    by (simp only: arr if_True if_False)
  have 3: "process_event lib0 (Str '' Standby '') = Str ''Standby''"
    using process_event_rules [of lib0 "'' Standby ''"] 
    by (simp only: strip sby if_False)
  show ?thesis using 1 2 3 by blast
qed

section \<open>Coordinate converter: absent, numeric and other inputs\<close>

text \<open>
  C3, as the claim states it, fails: a value that is not a number, such as the string
  "abc", is not absent for \<open>pd.isna\<close>, and its comparison with 0 raises \<open>TypeError\<close>
  (an infinite float likewise is not absent, and \<open>int\<close> raises \<open>OverflowError\<close> on it).
\<close>

theorem convert_decimal_to_dms_str_counterexample:
  "convert_decimal_to_dms (Str ''abc'') True = Inl TypeError"
  by simp

text \<open>
  C3, amended. \<open>convert_decimal_to_dms\<close> returns the all-absent triple for every absent
  input (\<open>None\<close> or NaN) and returns a triple, without raising, for every finite number
  (an integer or a finite float); it raises \<open>OverflowError\<close> for an infinite float and
  \<open>TypeError\<close> for every other value (a string, a date, a time, a timestamp).
\<close>

theorem convert_decimal_to_dms_absent:
  "(isna c \<longrightarrow> convert_decimal_to_dms c is_latitude = Inr (PyNone, PyNone, PyNone))
   \<and> ((\<exists>i. c = IntV i) \<or> (\<exists>d. c = Num d) \<longrightarrow> (\<exists>r. convert_decimal_to_dms c is_latitude = Inr r))
   \<and> (c = PosInf \<or> c = NegInf \<longrightarrow> convert_decimal_to_dms c is_latitude = Inl OverflowError)
   \<and> (\<not> isna c \<and> (\<forall>i. c \<noteq> IntV i) \<and> (\<forall>d. c \<noteq> Num d) \<and> c \<noteq> PosInf \<and> c \<noteq> NegInf
        \<longrightarrow> convert_decimal_to_dms c is_latitude = Inl TypeError)"
  by (cases c) (simp_all add: isna_def Let_def)

theorem convert_decimal_to_dms_absent_witness:
  "convert_decimal_to_dms NaN True = Inr (PyNone, PyNone, PyNone)
   \<and> convert_decimal_to_dms PyNone False = Inr (PyNone, PyNone, PyNone)
   \<and> (\<exists>r. convert_decimal_to_dms (Num (-12.345)) False = Inr r)
   \<and> convert_decimal_to_dms PosInf True = Inl OverflowError
   \<and> convert_decimal_to_dms (DateV 5) False = Inl TypeError"
  using convert_decimal_to_dms_absent [of NaN True]
    convert_decimal_to_dms_absent [of PyNone False]
    convert_decimal_to_dms_absent [of "Num (-12.345)" False]
    convert_decimal_to_dms_absent [of PosInf True]
    convert_decimal_to_dms_absent [of "DateV 5" False]
  by (simp add: isna_def)

text \<open>
  C6. For every finite number \<open>d\<close> and axis flag, the hemisphere is N for a non-negative
  latitude, S for a negative latitude, E for a non-negative longitude and W for a
  negative longitude; the degrees are the integer part of \<open>\<bar>d\<bar>\<close>; the minutes are
  \<open>(\<bar>d\<bar> - degrees) * 60\<close> rounded to one decimal place; and degrees + minutes / 60 differs
  from \<open>\<bar>d\<bar>\<close> by at most 0.05 / 60 = 1 / 1200. For an integer the minutes are 0.
\<close>

theorem convert_decimal_to_dms_numeric:
  "convert_decimal_to_dms (Num d) is_latitude =
     Inr (IntV \<lfloor>\<bar>d\<bar>\<rfloor>,
          Num (py_round1 ((\<bar>d\<bar> - of_int \<lfloor>\<bar>d\<bar>\<rfloor>) * 60)),
          Str (if is_latitude then (if 0 \<le> d then ''N'' else ''S'')
               else (if 0 \<le> d then ''E'' else ''W'')))
   \<and> \<bar>of_int \<lfloor>\<bar>d\<bar>\<rfloor> + py_round1 ((\<bar>d\<bar> - of_int \<lfloor>\<bar>d\<bar>\<rfloor>) * 60) / 60 - \<bar>d\<bar>\<bar> \<le> 1 / 1200
   \<and> convert_decimal_to_dms (IntV i) is_latitude =
     Inr (IntV \<bar>i\<bar>, IntV 0,
          Str (if is_latitude then (if 0 \<le> i then ''N'' else ''S'')
               else (if 0 \<le> i then ''E'' else ''W'')))"
proof -
  define m where "m = py_round1 ((\<bar>d\<bar> - of_int \<lfloor>\<bar>d\<bar>\<rfloor>) * 60)"
  have "\<bar>m - (\<bar>d\<bar> - of_int \<lfloor>\<bar>d\<bar>\<rfloor>) * 60\<bar> \<le> 1 / 20"
    unfolding m_def by (rule py_round1_bound)
  then have tol: "\<bar>of_int \<lfloor>\<bar>d\<bar>\<rfloor> + m / 60 - \<bar>d\<bar>\<bar> \<le> 1 / 1200"
    by (simp add: field_simps abs_le_iff)
  have num: "convert_decimal_to_dms (Num d) is_latitude =
     Inr (IntV \<lfloor>\<bar>d\<bar>\<rfloor>, Num m,
          Str (if is_latitude then (if 0 \<le> d then ''N'' else ''S'')
               else (if 0 \<le> d then ''E'' else ''W'')))"
    by (simp add: Let_def py_int_def direction_of_def m_def)
  have int: "convert_decimal_to_dms (IntV i) is_latitude =
     Inr (IntV \<bar>i\<bar>, IntV 0,
          Str (if is_latitude then (if 0 \<le> i then ''N'' else ''S'')
               else (if 0 \<le> i then ''E'' else ''W'')))"
    by (simp add: Let_def direction_of_def)
  show ?thesis using tol num int unfolding m_def by simp
qed

theorem convert_decimal_to_dms_numeric_witness:
  "convert_decimal_to_dms (Num (- 12.345)) False = Inr (IntV 12, Num 20.7, Str ''W'')
   \<and> \<bar>of_int 12 + 20.7 / 60 - \<bar>- 12.345 :: real\<bar>\<bar> \<le> 1 / 1200"
proof -
  have f: "\<lfloor>\<bar>- 12.345 :: real\<bar>\<rfloor> = 12" by simp
  have r: "py_round1 ((\<bar>- 12.345\<bar> - of_int 12) * 60) = 20.7"
    by (simp add: py_round1_def)
  have s: "(if False then (if 0 \<le> (- 12.345 :: real) then ''N'' else ''S'')
            else (if 0 \<le> (- 12.345 :: real) then ''E'' else ''W'')) = ''W''" by simp
  show ?thesis
    using convert_decimal_to_dms_numeric [of "- 12.345" False 0]
    by (simp only: f r s)
qed

section \<open>Timezone normalizer: results\<close>

lemma in_dropWhile: "c \<in> set xs \<Longrightarrow> \<not> P c \<Longrightarrow> c \<in> set (dropWhile P xs)"
  by (induction xs) auto

lemma in_py_strip: "c \<in> set s \<Longrightarrow> \<not> is_space c \<Longrightarrow> c \<in> set (py_strip s)"
  by (simp add: py_strip_def in_dropWhile)

lemma match_at_V: "match_at s = Some g \<Longrightarrow> CHR ''V'' \<in> set s"
proof -
  assume "match_at s = Some g"
  then have "startswith s ''TVA/GMT''" by (auto simp: match_at_def split: if_splits)
  then obtain b where "s = ''TVA/GMT'' @ b" using startswith_iff by blast
  then show ?thesis by simp
qed

lemma re_search_V: "re_search s = Some g \<Longrightarrow> CHR ''V'' \<in> set s"
proof (induction s)
  case Nil
  then show ?case by (simp add: match_at_def)
next
  case (Cons c cs)
  then show ?case
    by (cases "match_at (c # cs)") (auto dest: match_at_V)
qed

lemma re_search_not_utc:
  assumes "re_search tz = Some g"
  shows "py_upper (py_strip tz) \<noteq> ''UTC''" and "tz \<noteq> []"
proof -
  have v: "CHR ''V'' \<in> set tz" using assms by (rule re_search_V)
  then show "tz \<noteq> []" by auto
  have "\<not> is_space CHR ''V''" by (simp add: is_space_def)
  with v have "CHR ''V'' \<in> set (py_strip tz)" by (rule in_py_strip)
  then have "upper_char CHR ''V'' \<in> set (py_upper (py_strip tz))"
    unfolding py_upper_def by simp
  moreover have "upper_char CHR ''V'' = CHR ''V''" by (simp add: upper_char_def)
  ultimately have "CHR ''V'' \<in> set (py_upper (py_strip tz))" by simp
  then show "py_upper (py_strip tz) \<noteq> ''UTC''" by auto
qed

lemma div_mod_day:
  "(d * usec_per_day + x) div usec_per_day = d + x div usec_per_day"
  "(d * usec_per_day + x) mod usec_per_day = x mod usec_per_day"
  by (simp_all add: usec_per_day_def)

text \<open>
  C5, as the claim states it, fails: the subtraction can leave the range of the date
  type, the exception is caught and the result is (absent, absent). The timestamp
  "01/01/0001 02:00" parses in the first layout, and three hours earlier there is no
  date.
\<close>

theorem adjust_to_utc_offset_counterexample:
  "adjust_to_utc lib1 (Str ''01/01/0001 02:00'') (Str ''TVA/GMT+3'') = (PyNone, PyNone)"
  by (simp add: adjust_to_utc_def adjust_to_utc_body_def parse_report_to_def formats_def
      py_str_def lib1_def py_upper_def py_strip_def is_space_def upper_char_def match_at_def
      is_digit_def py_int_of_str_def int_of_digits_def digit_val_def to_timedelta_hours_def
      sub_hours_def representable_def usec_per_day_def usec_per_hour_def)

text \<open>
  C5, amended. For every successfully parsed timestamp and every descriptor in which
  the search finds TVA/GMT followed by a signed integer \<open>N\<close>: if \<open>N\<close> hours fit a
  \<open>Timedelta\<close> and the timestamp minus \<open>N\<close> hours is representable, the result is the time
  and the date of the timestamp minus \<open>N\<close> hours, the date moving by as many days as the
  subtraction crosses midnight; otherwise the result is (absent, absent).
\<close>

theorem adjust_to_utc_offset:
  assumes "parse_report_to lib report_to = Inr (Some dt)"
    and "re_search tz = Some g"
  shows "(py_int_of_str g = Inr N
           \<and> \<bar>N\<bar> * 3600000000000 \<le> 9223372036854775807
           \<and> representable lib (is_timestamp dt)
                (day_of dt * usec_per_day + usec_of dt - N * usec_per_hour)
          \<longrightarrow> adjust_to_utc lib report_to (Str tz) =
                (TimeV ((usec_of dt - N * usec_per_hour) mod usec_per_day),
                 DateV (day_of dt + (usec_of dt - N * usec_per_hour) div usec_per_day)))
       \<and> (\<not> (\<exists>M. py_int_of_str g = Inr M
                \<and> \<bar>M\<bar> * 3600000000000 \<le> 9223372036854775807
                \<and> representable lib (is_timestamp dt)
                     (day_of dt * usec_per_day + usec_of dt - M * usec_per_hour))
          \<longrightarrow> adjust_to_utc lib report_to (Str tz) = (PyNone, PyNone))"
proof -
  note nu = re_search_not_utc [OF assms(2)]
  have body: "adjust_to_utc_body lib report_to (Str tz) =
      (case py_int_of_str g of
         Inl e \<Rightarrow> Inl e
       | Inr offset \<Rightarrow>
           (case to_timedelta_hours offset of
              Inl e \<Rightarrow> Inl e
            | Inr hours \<Rightarrow>
                (case sub_hours lib dt hours of
                   Inl e \<Rightarrow> Inl e
                 | Inr adjusted_time \<Rightarrow>
                     Inr (TimeV (usec_of adjusted_time), DateV (day_of adjusted_time)))))"
    using assms nu by (simp add: adjust_to_utc_body_def)
  have d: "(day_of dt * usec_per_day + usec_of dt - k) div usec_per_day
             = day_of dt + (usec_of dt - k) div usec_per_day"
          "(day_of dt * usec_per_day + usec_of dt - k) mod usec_per_day
             = (usec_of dt - k) mod usec_per_day" for k
    using div_mod_day [of "day_of dt" "usec_of dt - k"] by (simp_all add: algebra_simps)
  show ?thesis
    unfolding adjust_to_utc_def body
    by (auto simp: to_timedelta_hours_def sub_hours_def Let_def d split: sum.splits)
qed

theorem adjust_to_utc_offset_witness:
  "adjust_to_utc lib1 (Str ''01/03/2024 02:00'') (Str ''TVA/GMT+3'')
     = (TimeV 82800000000, DateV 738945)"
proof -
  have p: "parse_report_to lib1 (Str ''01/03/2024 02:00'') = Inr (Some (Stamp False 738946 7200000000))"
    by (simp add: parse_report_to_def formats_def py_str_def lib1_def)
  have r: "re_search ''TVA/GMT+3'' = Some ''+3''"
    by (simp add: match_at_def is_digit_def)
  have i: "py_int_of_str ''+3'' = Inr 3"
    by (simp add: py_int_of_str_def int_of_digits_def digit_val_def)
  have rep: "representable lib1 False (738946 * usec_per_day + 7200000000 - 3 * usec_per_hour)"
    by (simp add: representable_def usec_per_day_def usec_per_hour_def)
  show ?thesis
    using adjust_to_utc_offset [OF p r, of 3] i rep
    by (simp add: usec_per_day_def usec_per_hour_def)
qed

text \<open>
  C4. For every timestamp and timezone descriptor the result is either both a time and
  a date or (absent, absent). An unparseable timestamp, an empty descriptor, a
  descriptor that is neither UTC nor contains the TVA/GMT form, and any exception raised
  in the body all give (absent, absent); the function itself raises nothing.
\<close>

theorem adjust_to_utc_all_or_nothing:
  "(adjust_to_utc lib report_to timezone = (PyNone, PyNone)
      \<or> (\<exists>t d. adjust_to_utc lib report_to timezone = (TimeV t, DateV d)))
   \<and> (parse_report_to lib report_to = Inr None
        \<longrightarrow> adjust_to_utc lib report_to timezone = (PyNone, PyNone))
   \<and> (timezone = Str [] \<longrightarrow> adjust_to_utc lib report_to timezone = (PyNone, PyNone))
   \<and> (timezone = Str tz \<and> py_upper (py_strip tz) \<noteq> ''UTC'' \<and> re_search tz = None
        \<longrightarrow> adjust_to_utc lib report_to timezone = (PyNone, PyNone))
   \<and> (adjust_to_utc_body lib report_to timezone = Inl e
        \<longrightarrow> adjust_to_utc lib report_to timezone = (PyNone, PyNone))"
proof -
  have 1: "adjust_to_utc lib report_to timezone = (PyNone, PyNone)
      \<or> (\<exists>t d. adjust_to_utc lib report_to timezone = (TimeV t, DateV d))"
    unfolding adjust_to_utc_def adjust_to_utc_body_def
    by (simp split: sum.splits option.splits cell.splits)
  have 2: "parse_report_to lib report_to = Inr None
        \<Longrightarrow> adjust_to_utc lib report_to timezone = (PyNone, PyNone)"
    by (simp add: adjust_to_utc_def adjust_to_utc_body_def)
  have 3: "timezone = Str [] \<Longrightarrow> adjust_to_utc lib report_to timezone = (PyNone, PyNone)"
    by (simp add: adjust_to_utc_def adjust_to_utc_body_def split: sum.splits option.splits)
  have 4: "timezone = Str tz \<and> py_upper (py_strip tz) \<noteq> ''UTC'' \<and> re_search tz = None
        \<Longrightarrow> adjust_to_utc lib report_to timezone = (PyNone, PyNone)"
    by (simp add: adjust_to_utc_def adjust_to_utc_body_def split: sum.splits option.splits)
  have 5: "adjust_to_utc_body lib report_to timezone = Inl e
        \<Longrightarrow> adjust_to_utc lib report_to timezone = (PyNone, PyNone)"
    by (simp add: adjust_to_utc_def)
  show ?thesis using 1 2 3 4 5 by blast
qed

theorem adjust_to_utc_all_or_nothing_witness:
  "adjust_to_utc lib1 (Str ''01/03/2024 02:00'') (Str '' utc '') = (TimeV 7200000000, DateV 738946)
   \<and> adjust_to_utc lib1 (Str ''yesterday'') (Str ''UTC'') = (PyNone, PyNone)
   \<and> adjust_to_utc lib1 (Str ''01/03/2024 02:00'') (Str []) = (PyNone, PyNone)
   \<and> adjust_to_utc lib1 (Str ''01/03/2024 02:00'') (Str ''CET'') = (PyNone, PyNone)
   \<and> adjust_to_utc lib1 (Str ''01/03/2024 02:00'') NaN = (PyNone, PyNone)"
proof -
  have p: "parse_report_to lib1 (Str ''01/03/2024 02:00'') = Inr (Some (Stamp False 738946 7200000000))"
    by (simp add: parse_report_to_def formats_def py_str_def lib1_def)
  have q: "parse_report_to lib1 (Str ''yesterday'') = Inr None"
    by (simp add: parse_report_to_def formats_def py_str_def lib1_def)
  have u: "py_upper (py_strip '' utc '') = ''UTC''"
    by code_simp
  have 1: "adjust_to_utc lib1 (Str ''01/03/2024 02:00'') (Str '' utc '') = (TimeV 7200000000, DateV 738946)"
    using adjust_to_utc_all_or_nothing [of lib1 "Str ''01/03/2024 02:00''" "Str '' utc ''"]
    by (simp add: adjust_to_utc_def adjust_to_utc_body_def p u)
  have 2: "adjust_to_utc lib1 (Str ''yesterday'') (Str ''UTC'') = (PyNone, PyNone)"
    using adjust_to_utc_all_or_nothing [of lib1 "Str ''yesterday''" "Str ''UTC''"] q by blast
  have 3: "adjust_to_utc lib1 (Str ''01/03/2024 02:00'') (Str []) = (PyNone, PyNone)"
    using adjust_to_utc_all_or_nothing [of lib1 "Str ''01/03/2024 02:00''" "Str []"] by blast
  have c: "py_upper (py_strip ''CET'') \<noteq> ''UTC''" "re_search ''CET'' = None"
    by (simp_all add: py_upper_def py_strip_def is_space_def upper_char_def match_at_def)
  have 4: "adjust_to_utc lib1 (Str ''01/03/2024 02:00'') (Str ''CET'') = (PyNone, PyNone)"
    using adjust_to_utc_all_or_nothing [of lib1 "Str ''01/03/2024 02:00''" "Str ''CET''" "''CET''"] c
    by blast
  have b: "adjust_to_utc_body lib1 (Str ''01/03/2024 02:00'') NaN = Inl AttributeError"
    by (simp add: adjust_to_utc_body_def p)
  have 5: "adjust_to_utc lib1 (Str ''01/03/2024 02:00'') NaN = (PyNone, PyNone)"
    using adjust_to_utc_all_or_nothing [of lib1 "Str ''01/03/2024 02:00''" NaN _ AttributeError] b
    by blast
  show ?thesis using 1 2 3 4 5 by blast
qed

section \<open>Tables: columns\<close>

lemma ebind_Inr_iff: "ebind m f = Inr y \<longleftrightarrow> (\<exists>x. m = Inr x \<and> f x = Inr y)"
  by (cases m) (simp_all add: ebind_def)

lemma ebind_Inr [simp]: "ebind (Inr x) f = f x"
  by (simp add: ebind_def)

lemma ebind_Inl [simp]: "ebind (Inl e) f = Inl e"
  by (simp add: ebind_def)

lemma has_col_iff: "has_col df c \<longleftrightarrow> (\<exists>v. get_col df c = Inr v)"
proof -
  have "c \<in> fst ` set (cols df) \<longleftrightarrow> map_of (cols df) c \<noteq> None"
    by (simp add: map_of_eq_None_iff)
  then show ?thesis
    by (auto simp: has_col_def get_col_def split: option.splits)
qed

lemma map_of_replace:
  "map_of (map (\<lambda>(k, x). if k = c then (k, v) else (k, x)) xs) c' =
     (if c' = c then (if c \<in> fst ` set xs then Some v else None) else map_of xs c')"
  by (induction xs) (auto simp: rev_image_eqI)

lemma get_col_set_col_same: "get_col (set_col df c v) c = Inr v"
proof (cases "has_col df c")
  case True
  then show ?thesis
    by (simp add: get_col_def set_col_def map_of_replace has_col_def)
next
  case False
  then have "map_of (cols df) c = None"
    by (simp add: has_col_def map_of_eq_None_iff)
  with False show ?thesis
    by (simp add: get_col_def set_col_def map_add_def)
qed

lemma get_col_set_col_other: "c' \<noteq> c \<Longrightarrow> get_col (set_col df c v) c' = get_col df c'"
  by (cases "has_col df c")
     (auto simp: get_col_def set_col_def map_of_replace split: option.splits)

lemma nrows_set_col [simp]: "nrows (set_col df c v) = nrows df"
  by (simp add: set_col_def)


lemma map_err_Inr:
  "map_err f xs = Inr ys \<Longrightarrow> list_all2 (\<lambda>x y. f x = Inr y) xs ys"
  by (induction xs arbitrary: ys) (auto simp: ebind_Inr_iff)

section \<open>Fuel consumption aggregator: slot 1\<close>

text \<open>
  C1. The claim says that the auxiliary-engine quantity of slot 1 goes to the
  auxiliary-engine column and the boiler quantity to the boiler column. The three
  blocks for slot 1 all use the main-engine table: on the row with fuel type "hfo" and
  the quantities 10, 2 and 3 the main-engine column receives 10 + 2 + 3 = 15, and the
  auxiliary-engine and boiler columns stay 0.
\<close>

theorem map_fuel_type_consumption_slot1:
  "ebind (map_fuel_type_consumption lib0 fuel_example)
     (\<lambda>df. Inr (map (map_of (cols df))
                  [''ME_Consumption_HFO'', ''AE_Consumption_HFO'', ''Boiler_Consumption_HFO'']))
   = Inr [Some [Num 15], Some [Num 0], Some [Num 0]]"
  by code_simp

section \<open>Port code resolver: values\<close>

text \<open>
  C2, as the claim states it, fails: the column that \<open>map_values\<close> falls back on is the
  normalized one, so the unmatched "Hamburg " (capital letter, trailing blank) becomes
  "hamburg".
\<close>

lemma update_voyage_example:
  "update_voyage_columns lib0 voyage_example reference_example =
     Inr (DataFrame 2
            [(''Voyage_From'', [NaN, Str ''hamburg'']),
             (''Voyage_To'', [Str ''hamburg'', Str ''NLROT''])])"
  by code_simp

theorem update_voyage_columns_counterexample:
  "update_voyage_columns lib0 voyage_example reference_example =
     Inr (DataFrame 2
            [(''Voyage_From'', [NaN, Str ''hamburg'']),
             (''Voyage_To'', [Str ''hamburg'', Str ''NLROT''])])"
  by (rule update_voyage_example)

lemma map_values_Inr:
  assumes "get_col rd rk = Inr keys" and "get_col rd tk = Inr vals"
  shows "map_values column rd rk tk =
     Inr (map (\<lambda>c. case reference_map keys vals c of
                      None \<Rightarrow> c
                    | Some p \<Rightarrow> if isna p then c else p) column)"
proof -
  have "(let mapped = (case reference_map keys vals c of Some v \<Rightarrow> v | None \<Rightarrow> NaN)
         in if isna mapped then c else mapped)
        = (case reference_map keys vals c of None \<Rightarrow> c | Some p \<Rightarrow> if isna p then c else p)" for c
    by (simp add: Let_def isna_def split: option.splits)
  then show ?thesis using assms by (simp add: map_values_def)
qed

lemma update_columns_other:
  "update_columns od rd cs = Inr out \<Longrightarrow> c \<notin> set cs \<Longrightarrow> get_col out c = get_col od c"
proof (induction cs arbitrary: od)
  case Nil
  then show ?case by simp
next
  case (Cons a cs)
  show ?case
  proof (cases "has_col od a")
    case True
    with Cons.prems(1) obtain v v' where
      v: "get_col od a = Inr v" and
      r: "update_columns (set_col od a v') rd cs = Inr out"
      by (auto simp: ebind_Inr_iff)
    have "get_col out c = get_col (set_col od a v') c"
      using Cons.IH [OF r] Cons.prems(2) by simp
    then show ?thesis using Cons.prems(2) by (simp add: get_col_set_col_other)
  next
    case False
    with Cons show ?thesis by simp
  qed
qed

lemma update_columns_col:
  assumes "update_columns od rd cs = Inr out" and "c \<in> set cs" and "distinct cs"
    and "get_col od c = Inr v"
  shows "map_values (map (\<lambda>c. str_strip (str_lower c)) v) rd ''NameWoDiacritics'' ''PortCode''
           = Inr v' \<Longrightarrow> get_col out c = Inr v'"
  using assms
proof (induction cs arbitrary: od)
  case Nil
  then show ?case by simp
next
  case (Cons a cs)
  show ?case
  proof (cases "a = c")
    case True
    then have h: "has_col od a" using Cons.prems(5) has_col_iff by blast
    with Cons.prems(2) True Cons.prems(5) Cons.prems(1) have
      r: "update_columns (set_col od c v') rd cs = Inr out"
      by (auto simp: ebind_Inr_iff)
    have "c \<notin> set cs" using Cons.prems(4) True by simp
    then have "get_col out c = get_col (set_col od c v') c"
      using update_columns_other [OF r] by simp
    then show ?thesis by (simp add: get_col_set_col_same)
  next
    case False
    then have cin: "c \<in> set cs" using Cons.prems(3) by simp
    have d: "distinct cs" using Cons.prems(4) by simp
    show ?thesis
    proof (cases "has_col od a")
      case True
      with Cons.prems(2) obtain w w' where
        r: "update_columns (set_col od a w') rd cs = Inr out"
        by (auto simp: ebind_Inr_iff)
      have g: "get_col (set_col od a w') c = Inr v"
        using False Cons.prems(5) by (simp add: get_col_set_col_other)
      show ?thesis using Cons.IH [OF Cons.prems(1) r cin d g] .
    next
      case False
      with Cons.prems(2) have r: "update_columns od rd cs = Inr out" by simp
      show ?thesis using Cons.IH [OF Cons.prems(1) r cin d Cons.prems(5)] .
    qed
  qed
qed

lemma reference_map_None:
  "k \<notin> set keys \<Longrightarrow> reference_map keys vals k = None"
proof -
  assume "k \<notin> set keys"
  then have "k \<notin> fst ` set (zip keys vals)" by (auto dest: set_zip_leftD)
  then show ?thesis by (simp add: reference_map_def map_of_eq_None_iff)
qed

text \<open>
  C2, amended. In the port-code resolver, every value of the Voyage_From and Voyage_To
  columns is first normalized (lower-cased, then trimmed; a value that is not a string
  becomes NaN). A value whose normalized form is none of the normalized port names is
  replaced by that normalized form: it is not nulled, and it equals the original text
  only if that was lower-case and trimmed already. A value whose normalized form has an
  entry with a PortCode that is not missing is replaced by that PortCode.
\<close>

theorem update_voyage_columns_values:
  assumes "update_voyage_columns lib output_data reference_data = Inr out"
    and "column = ''Voyage_From'' \<or> column = ''Voyage_To''"
    and "get_col output_data column = Inr v"
    and "get_col reference_data ''NameWoDiacritics'' = Inr names"
    and "get_col reference_data ''Country'' = Inr country"
    and "get_col reference_data ''Location'' = Inr location"
  shows "\<exists>v' code. get_col out column = Inr v' \<and> length v' = length v
           \<and> map_err (\<lambda>(a, b). concat_cells a b) (zip country location) = Inr code
           \<and> (\<forall>i < length v.
                (str_strip (str_lower (v ! i)) \<notin> set (map (\<lambda>c. str_strip (str_lower c)) names)
                   \<longrightarrow> v' ! i = str_strip (str_lower (v ! i)))
                \<and> (\<forall>p. reference_map (map (\<lambda>c. str_strip (str_lower c)) names)
                           (map str_slice5 code) (str_strip (str_lower (v ! i))) = Some p
                        \<and> \<not> isna p \<longrightarrow> v' ! i = p))"
proof -
  define names' where "names' = map (\<lambda>c. str_strip (str_lower c)) names"
  define rd1 where "rd1 = set_col reference_data ''NameWoDiacritics'' names'"
  have c1: "get_col rd1 ''Country'' = Inr country" "get_col rd1 ''Location'' = Inr location"
    using assms(5,6) by (simp_all add: rd1_def get_col_set_col_other)
  from assms(1) obtain code od2 where
    code: "map_err (\<lambda>(a, b). concat_cells a b) (zip country location) = Inr code" and
    upd: "update_columns output_data (set_col rd1 ''PortCode'' (map str_slice5 code))
            [''Voyage_From'', ''Voyage_To''] = Inr od2" and
    fin: "(if has_col od2 ''Date_UTC'' then
               ebind (get_col od2 ''Date_UTC'') (\<lambda>d.
               ebind (map_err (to_date lib) d) (\<lambda>d'.
               Inr (set_col od2 ''Date_UTC'' d')))
             else Inr od2) = Inr out"
    unfolding update_voyage_columns_def
    by (auto simp: ebind_Inr_iff assms(4) Let_def rd1_def [symmetric] names'_def [symmetric] c1
        simp del: update_columns.simps)
  define rd2 where "rd2 = set_col rd1 ''PortCode'' (map str_slice5 code)"
  have k: "get_col rd2 ''NameWoDiacritics'' = Inr names'"
    by (simp add: rd2_def rd1_def get_col_set_col_other get_col_set_col_same)
  have t: "get_col rd2 ''PortCode'' = Inr (map str_slice5 code)"
    by (simp add: rd2_def get_col_set_col_same)
  define v' where "v' = map (\<lambda>c. case reference_map names' (map str_slice5 code) c of
                      None \<Rightarrow> c
                    | Some p \<Rightarrow> if isna p then c else p) (map (\<lambda>c. str_strip (str_lower c)) v)"
  have mv: "map_values (map (\<lambda>c. str_strip (str_lower c)) v) rd2 ''NameWoDiacritics'' ''PortCode''
              = Inr v'"
    unfolding v'_def by (rule map_values_Inr [OF k t])
  have cin: "column \<in> set [''Voyage_From'', ''Voyage_To'']" using assms(2) by auto
  have g2: "get_col od2 column = Inr v'"
    using update_columns_col [OF upd [folded rd2_def] cin _ assms(3) mv] by simp
  have ne: "column \<noteq> ''Date_UTC''" using assms(2) by auto
  have "get_col out column = get_col od2 column"
    using fin ne by (auto simp: ebind_Inr_iff get_col_set_col_other split: if_splits)
  then have g: "get_col out column = Inr v'" using g2 by simp
  have len: "length v' = length v" by (simp add: v'_def)
  have cells: "(str_strip (str_lower (v ! i)) \<notin> set names'
                   \<longrightarrow> v' ! i = str_strip (str_lower (v ! i)))
                \<and> (\<forall>p. reference_map names' (map str_slice5 code) (str_strip (str_lower (v ! i))) = Some p
                        \<and> \<not> isna p \<longrightarrow> v' ! i = p)" if "i < length v" for i
    using that by (auto simp: v'_def reference_map_None)
  show ?thesis using g len code cells unfolding names'_def by blast
qed

theorem update_voyage_columns_values_witness:
  "\<exists>v'. get_col (DataFrame 2
                    [(''Voyage_From'', [NaN, Str ''hamburg'']),
                     (''Voyage_To'', [Str ''hamburg'', Str ''NLROT''])]) ''Voyage_To'' = Inr v'
         \<and> v' ! 0 = Str ''hamburg'' \<and> v' ! 1 = Str ''NLROT''"
proof -
  have g: "get_col voyage_example ''Voyage_To'' = Inr [Str ''Hamburg '', Str '' Rotterdam'']"
    by (simp add: get_col_def voyage_example_def)
  have n: "get_col reference_example ''NameWoDiacritics'' = Inr [Str ''Rotterdam'']"
    by (simp add: get_col_def reference_example_def)
  have c: "get_col reference_example ''Country'' = Inr [Str ''NL'']"
    by (simp add: get_col_def reference_example_def)
  have l: "get_col reference_example ''Location'' = Inr [Str ''ROTT'']"
    by (simp add: get_col_def reference_example_def)
  have h: "str_strip (str_lower (Str ''Hamburg '')) = Str ''hamburg''"
    by code_simp
  have r: "str_strip (str_lower (Str '' Rotterdam'')) = Str ''rotterdam''"
    by code_simp
  have k: "str_strip (str_lower (Str ''Rotterdam'')) = Str ''rotterdam''"
    by code_simp
  have col: "''Voyage_To'' = ''Voyage_From'' \<or> ''Voyage_To'' = ''Voyage_To''"
    by simp
  from update_voyage_columns_values [OF update_voyage_example col g n c l]
  obtain v' code where
    v': "get_col (DataFrame 2
                    [(''Voyage_From'', [NaN, Str ''hamburg'']),
                     (''Voyage_To'', [Str ''hamburg'', Str ''NLROT''])]) ''Voyage_To'' = Inr v'"
    and code: "map_err (\<lambda>(a, b). concat_cells a b) (zip [Str ''NL''] [Str ''ROTT'']) = Inr code"
    and cells: "\<forall>i < length [Str ''Hamburg '', Str '' Rotterdam''].
                (str_strip (str_lower ([Str ''Hamburg '', Str '' Rotterdam''] ! i))
                    \<notin> set (map (\<lambda>c. str_strip (str_lower c)) [Str ''Rotterdam''])
                   \<longrightarrow> v' ! i = str_strip (str_lower ([Str ''Hamburg '', Str '' Rotterdam''] ! i)))
                \<and> (\<forall>p. reference_map (map (\<lambda>c. str_strip (str_lower c)) [Str ''Rotterdam''])
                           (map str_slice5 code)
                           (str_strip (str_lower ([Str ''Hamburg '', Str '' Rotterdam''] ! i))) = Some p
                        \<and> \<not> isna p \<longrightarrow> v' ! i = p)"
    by auto
  have code_eq: "code = [Str ''NLROTT'']"
    using code by (simp add: concat_cells_def isna_def)
  have 0: "v' ! 0 = Str ''hamburg''"
    using cells [rule_format, of 0] by (simp add: h k)
  have 1: "v' ! 1 = Str ''NLROT''"
    using cells [rule_format, of 1]
    by (simp add: r k code_eq reference_map_def str_slice5_def isna_def)
  show ?thesis using v' 0 1 by blast
qed

section \<open>Fuel consumption aggregator: columns\<close>



lemma is_float_cell_of_float [simp]: "is_float (cell_of_float x)"
  by (cases x) simp_all

















lemma astype_str_idem:
  "astype_str lib (fillna (Str []) (astype_str lib c)) = astype_str lib c"
  by (simp add: astype_str_def fillna_def isna_def py_str_def)

lemma fillna_astype_str_idem:
  "fillna (Str []) (astype_str lib (fillna (Str []) (astype_str lib c)))
     = fillna (Str []) (astype_str lib c)"
  by (simp add: astype_str_idem)











section \<open>Record transformer: columns and order\<close>


lemma copy_prefixed_nrows [simp]: "nrows (copy_prefixed prefix nav t) = nrows t"
proof -
  have "nrows (fold (\<lambda>(col, v) t. if startswith col prefix then set_col t col v else t) xs t)
          = nrows t" for xs
    by (induction xs arbitrary: t) (auto split: prod.splits)
  then show ?thesis by (simp add: copy_prefixed_def)
qed





lemma has_col_take_rows [simp]: "has_col (take_rows idx df) c = has_col df c"
  by (force simp: has_col_def take_rows_def)

















section \<open>Fuel consumption aggregator: when it returns\<close>












section \<open>Record transformer: the example table\<close>











section \<open>Record transformer: order of the output\<close>





section \<open>Record transformer: consumption columns\<close>



end
